theory Spec2Isabelle
  imports Complex_Main
begin

section \<open>Exceptions\<close>

text \<open>
  Every exception the modelled code can raise is a value. A call returns its outcome
  (\<open>Inl\<close> the exception, \<open>Inr\<close> the result) together with the state it leaves behind,
  because a Python exception does not undo the mutations made before it was raised.
\<close>

datatype error =
    AttributeError
  | DivisionByZero
  | InvalidOperation
  | IndexError
  | KeyError
  | ValueError

section \<open>Decimal arithmetic (basic\_types.py, line 7)\<close>

text \<open>
  \<open>Amount\<close> and \<open>Price\<close> are \<open>decimal.Decimal\<close>. A finite decimal is modelled by its
  numeric value, a rational; Python compares and hashes decimals by value, so equality
  of the rationals is equality of the decimals. The module sets the context precision to
  8 and leaves the rounding mode at its default, round-half-even. An arithmetic operation
  is the exact operation followed by rounding to the precision; the constructor
  \<open>Decimal(x)\<close> is exact. The exponent range of the context (exponents up to 999999 in
  magnitude) is not modelled: the development speaks of amounts whose products and
  quotients stay inside it, where neither Overflow nor Underflow occurs. NaN and the
  infinities are not amounts.
\<close>

definition prec :: nat where
  "prec = 8"

definition round_half_even :: "rat \<Rightarrow> int" where
  "round_half_even x =
     (let f = \<lfloor>x\<rfloor>; d = x - of_int f
      in if d < 1 / 2 then f
         else if 1 / 2 < d then f + 1
         else if even f then f else f + 1)"

text \<open>The number of decimal digits of a positive integer.\<close>

function digits10 :: "int \<Rightarrow> nat" where
  "digits10 n = (if n \<le> 0 then 0 else Suc (digits10 (n div 10)))"
  by pat_completeness auto
termination
  by (relation "measure nat") auto

declare digits10.simps [simp del]

text \<open>
  The adjusted exponent of a non-zero value: the \<open>e\<close> with \<open>10^e \<le> |x| < 10^(e+1)\<close>.
  It is computed from the digit counts of numerator and denominator.
\<close>

definition adjusted :: "rat \<Rightarrow> int" where
  "adjusted x =
     (let (p, q) = quotient_of \<bar>x\<bar>;
          d = int (digits10 p) - int (digits10 q)
      in if 10 powi d \<le> \<bar>x\<bar> then d else d - 1)"

text \<open>Rounding to \<open>prec\<close> significant digits, on sign and magnitude as the library does.\<close>

definition round_prec :: "rat \<Rightarrow> rat" where
  "round_prec x =
     (if x = 0 then 0
      else let q = 10 powi (adjusted x - (int prec - 1))
           in sgn x * of_int (round_half_even (\<bar>x\<bar> / q)) * q)"

definition Decimal_mul :: "rat \<Rightarrow> rat \<Rightarrow> rat" where
  "Decimal_mul x y = round_prec (x * y)"

text \<open>
  Division by zero signals DivisionByZero, and \<open>0 / 0\<close> signals InvalidOperation; the
  default context traps both, so both raise.
\<close>

definition Decimal_truediv :: "rat \<Rightarrow> rat \<Rightarrow> error + rat" where
  "Decimal_truediv x y =
     (if y = 0 then (if x = 0 then Inl InvalidOperation else Inl DivisionByZero)
      else Inr (round_prec (x / y)))"

text \<open>Unary minus is an arithmetic operation too: it rounds its result.\<close>

definition Decimal_neg :: "rat \<Rightarrow> rat" where
  "Decimal_neg x = round_prec (- x)"

section \<open>Basic types (basic\_types.py)\<close>

record Currency =
  symbol :: string
  issuer :: string

record Market =
  base :: Currency
  counter :: Currency

text \<open>
  \<open>BuyOffer\<close> and \<open>SellOffer\<close> differ only in the class attribute \<open>is_bid\<close>, which is
  therefore a field here. \<open>Offer\<close> defines no \<open>__eq__\<close>; an offer object is identified with
  the values of its fields.
\<close>

record Offer =
  is_bid :: bool
  base_amount :: rat
  base_remaining :: rat
  counter_amount :: rat
  counter_remaining :: rat

definition Offer_init :: "bool \<Rightarrow> rat \<Rightarrow> rat \<Rightarrow> Offer" where
  "Offer_init cls b c =
     \<lparr>is_bid = cls, base_amount = b, base_remaining = b,
      counter_amount = c, counter_remaining = c\<rparr>"

definition Offer_price :: "Offer \<Rightarrow> error + rat" where
  "Offer_price ofr = Decimal_truediv (counter_amount ofr) (base_amount ofr)"

definition Offer_price_remaining :: "Offer \<Rightarrow> error + rat" where
  "Offer_price_remaining ofr = Decimal_truediv (counter_remaining ofr) (base_remaining ofr)"

definition Offer_is_partial :: "Offer \<Rightarrow> bool" where
  "Offer_is_partial ofr \<longleftrightarrow> base_remaining ofr < base_amount ofr"

definition Offer_from_price :: "bool \<Rightarrow> rat \<Rightarrow> rat \<Rightarrow> Offer" where
  "Offer_from_price cls b p = (let c = Decimal_mul b p in Offer_init cls b c)"

text \<open>A \<open>datetime\<close> is a point on the time line, here a count of minutes.\<close>

record Trade =
  time :: int
  offer :: Offer

definition Trade_is_bid :: "Trade \<Rightarrow> bool" where
  "Trade_is_bid tr = is_bid (offer tr)"

text \<open>
  Attribute lookup on the class \<open>Trade\<close>. The class body declares the fields \<open>time\<close> and
  \<open>offer\<close> and the property \<open>is_bid\<close>; \<open>NamedTuple\<close> adds its own helpers and \<open>tuple\<close>
  the two public methods \<open>count\<close> and \<open>index\<close>. Any other name raises AttributeError.
\<close>

definition Trade_attributes :: "string list" where
  "Trade_attributes =
     [''time'', ''offer'', ''is_bid'',
      ''_fields'', ''_field_defaults'', ''_make'', ''_replace'', ''_asdict'',
      ''count'', ''index'']"

definition Trade_getattr :: "string \<Rightarrow> error + string" where
  "Trade_getattr name =
     (if name \<in> set Trade_attributes then Inr name else Inl AttributeError)"

section \<open>Offer tokens (orderbook.py, lines 11--54)\<close>

record OfferToken =
  price :: rat
  time :: nat

text \<open>
  \<open>_offer_token_id = itertools.count()\<close> is one counter for the whole process. Its next
  value is passed in and the advanced counter is returned. The price is computed first;
  when that raises, \<open>next\<close> has not been called and the counter has not moved.
\<close>

definition OfferToken_new :: "nat \<Rightarrow> Offer \<Rightarrow> error + OfferToken \<times> nat" where
  "OfferToken_new next_id ofr =
     (if is_bid ofr
      then (case Offer_price ofr of
              Inl e \<Rightarrow> Inl e
            | Inr p \<Rightarrow> Inr (\<lparr>price = Decimal_neg p, time = next_id\<rparr>, Suc next_id))
      else (case Offer_price ofr of
              Inl e \<Rightarrow> Inl e
            | Inr p \<Rightarrow> Inr (\<lparr>price = p, time = next_id\<rparr>, Suc next_id)))"

definition OfferToken_is_bid :: "OfferToken \<Rightarrow> bool" where
  "OfferToken_is_bid tok \<longleftrightarrow> price tok < 0"

text \<open>Tokens are tuples \<open>(price, time)\<close> and compare as tuples do.\<close>

definition token_less :: "OfferToken \<Rightarrow> OfferToken \<Rightarrow> bool" where
  "token_less a b \<longleftrightarrow>
     price a < price b \<or> (price a = price b \<and> OfferToken.time a < OfferToken.time b)"

section \<open>SortedDict\<close>

text \<open>
  A \<open>SortedDict\<close> from tokens to offers is the list of its items in iteration order,
  that is, in ascending order of the keys. Assigning to a key that is present replaces
  the value in place; assigning to a new key inserts the item at its sorted position.
  \<open>del\<close> raises KeyError when the key is absent. \<open>update\<close> with a list of pairs assigns
  each pair in turn.
\<close>

type_synonym SortedDict = "(OfferToken \<times> Offer) list"

fun SortedDict_setitem :: "OfferToken \<Rightarrow> Offer \<Rightarrow> SortedDict \<Rightarrow> SortedDict" where
  "SortedDict_setitem k v [] = [(k, v)]"
| "SortedDict_setitem k v ((k', v') # d) =
     (if k = k' then (k', v) # d
      else if token_less k k' then (k, v) # (k', v') # d
      else (k', v') # SortedDict_setitem k v d)"

fun SortedDict_delitem :: "OfferToken \<Rightarrow> SortedDict \<Rightarrow> error + SortedDict" where
  "SortedDict_delitem k [] = Inl KeyError"
| "SortedDict_delitem k ((k', v') # d) =
     (if k = k' then Inr d
      else (case SortedDict_delitem k d of
              Inl e \<Rightarrow> Inl e
            | Inr d' \<Rightarrow> Inr ((k', v') # d')))"

fun SortedDict_update :: "(OfferToken \<times> Offer) list \<Rightarrow> SortedDict \<Rightarrow> SortedDict" where
  "SortedDict_update [] d = d"
| "SortedDict_update ((k, v) # pairs) d = SortedDict_update pairs (SortedDict_setitem k v d)"

section \<open>The order book (orderbook.py, lines 57--152)\<close>

record Orderbook =
  market :: Market
  asks :: SortedDict
  bids :: SortedDict

text \<open>The state a method of the order book runs in: the process-wide counter and the book.\<close>

record State =
  offer_token_id :: nat
  book :: Orderbook

definition Orderbook_init :: "Market \<Rightarrow> Orderbook" where
  "Orderbook_init m = \<lparr>Orderbook.market = m, asks = [], bids = []\<rparr>"

definition Orderbook_clear :: "State \<Rightarrow> (error + unit) \<times> State" where
  "Orderbook_clear s = (Inr (), s\<lparr>book := (book s)\<lparr>asks := [], bids := []\<rparr>\<rparr>)"

definition Orderbook_add :: "Offer \<Rightarrow> State \<Rightarrow> (error + OfferToken) \<times> State" where
  "Orderbook_add ofr s =
     (case OfferToken_new (offer_token_id s) ofr of
        Inl e \<Rightarrow> (Inl e, s)
      | Inr (token, n) \<Rightarrow>
          (Inr token,
           \<lparr>offer_token_id = n,
            book = (if is_bid ofr
                    then (book s)\<lparr>bids := SortedDict_setitem token ofr (bids (book s))\<rparr>
                    else (book s)\<lparr>asks := SortedDict_setitem token ofr (asks (book s))\<rparr>)\<rparr>))"

text \<open>
  The loop of \<open>add_many\<close>, with its three local lists as accumulators. It returns the
  counter as well: a token drawn before a later offer raises stays drawn.
\<close>

fun add_many_loop ::
  "Offer list \<Rightarrow> nat \<Rightarrow> OfferToken list \<Rightarrow> (OfferToken \<times> Offer) list \<Rightarrow>
   (OfferToken \<times> Offer) list \<Rightarrow>
   (error + OfferToken list \<times> (OfferToken \<times> Offer) list \<times> (OfferToken \<times> Offer) list) \<times> nat"
where
  "add_many_loop [] n tokens asks' bids' = (Inr (tokens, asks', bids'), n)"
| "add_many_loop (ofr # offers) n tokens asks' bids' =
     (case OfferToken_new n ofr of
        Inl e \<Rightarrow> (Inl e, n)
      | Inr (token, n') \<Rightarrow>
          (if is_bid ofr
           then add_many_loop offers n' (tokens @ [token]) asks' (bids' @ [(token, ofr)])
           else add_many_loop offers n' (tokens @ [token]) (asks' @ [(token, ofr)]) bids'))"

definition Orderbook_add_many ::
  "Offer list \<Rightarrow> State \<Rightarrow> (error + OfferToken list) \<times> State" where
  "Orderbook_add_many offers s =
     (case add_many_loop offers (offer_token_id s) [] [] [] of
        (Inl e, n) \<Rightarrow> (Inl e, s\<lparr>offer_token_id := n\<rparr>)
      | (Inr (tokens, asks', bids'), n) \<Rightarrow>
          (Inr tokens,
           \<lparr>offer_token_id = n,
            book = (book s)\<lparr>asks := SortedDict_update asks' (asks (book s)),
                           bids := SortedDict_update bids' (bids (book s))\<rparr>\<rparr>))"

definition Orderbook_remove :: "OfferToken \<Rightarrow> State \<Rightarrow> (error + unit) \<times> State" where
  "Orderbook_remove token s =
     (if OfferToken_is_bid token
      then (case SortedDict_delitem token (bids (book s)) of
              Inl e \<Rightarrow> (Inl e, s)
            | Inr d \<Rightarrow> (Inr (), s\<lparr>book := (book s)\<lparr>bids := d\<rparr>\<rparr>))
      else (case SortedDict_delitem token (asks (book s)) of
              Inl e \<Rightarrow> (Inl e, s)
            | Inr d \<Rightarrow> (Inr (), s\<lparr>book := (book s)\<lparr>asks := d\<rparr>\<rparr>)))"

section \<open>SortedListWithKey\<close>

text \<open>
  A sorted list with a key function keeps its values in ascending order of their keys.
  \<open>add\<close> places a value after the values whose key is not greater; \<open>update\<close> adds every
  value of an iterable (versions of the library differ in where a batch puts a value whose
  key is already present, and nothing below depends on it); \<open>remove\<close> deletes one value
  equal to its argument and raises ValueError when there is none; indexing with \<open>-1\<close>
  reads the last value and raises IndexError on an empty list.
\<close>

record 'k SortedListWithKey =
  key :: "Trade \<Rightarrow> 'k"
  items :: "Trade list"

fun insert_right :: "(Trade \<Rightarrow> 'k::linorder) \<Rightarrow> Trade \<Rightarrow> Trade list \<Rightarrow> Trade list" where
  "insert_right f v [] = [v]"
| "insert_right f v (x # xs) =
     (if f v < f x then v # x # xs else x # insert_right f v xs)"

definition SortedList_add ::
  "Trade \<Rightarrow> ('k::linorder) SortedListWithKey \<Rightarrow> 'k SortedListWithKey" where
  "SortedList_add v l = l\<lparr>items := insert_right (key l) v (items l)\<rparr>"

fun SortedList_update ::
  "Trade list \<Rightarrow> ('k::linorder) SortedListWithKey \<Rightarrow> 'k SortedListWithKey" where
  "SortedList_update [] l = l"
| "SortedList_update (v # vs) l = SortedList_update vs (SortedList_add v l)"

fun remove_first :: "Trade \<Rightarrow> Trade list \<Rightarrow> error + Trade list" where
  "remove_first v [] = Inl ValueError"
| "remove_first v (x # xs) =
     (if v = x then Inr xs
      else (case remove_first v xs of
              Inl e \<Rightarrow> Inl e
            | Inr xs' \<Rightarrow> Inr (x # xs')))"

definition SortedList_remove ::
  "Trade \<Rightarrow> 'k SortedListWithKey \<Rightarrow> error + 'k SortedListWithKey" where
  "SortedList_remove v l =
     (case remove_first v (items l) of
        Inl e \<Rightarrow> Inl e
      | Inr xs \<Rightarrow> Inr (l\<lparr>items := xs\<rparr>))"

definition SortedList_getitem_last :: "'k SortedListWithKey \<Rightarrow> error + Trade" where
  "SortedList_getitem_last l =
     (case items l of [] \<Rightarrow> Inl IndexError | x # xs \<Rightarrow> Inr (last (x # xs)))"

section \<open>The trade history (trades.py)\<close>

record 'k History =
  market :: Market
  trades :: "'k SortedListWithKey"

text \<open>
  The constructor stores the market and then evaluates \<open>Trade.sort_by_time\<close> to build
  the sorted list. The lookup raises, the exception leaves the constructor, and the
  caller gets no history.
\<close>

definition History_init :: "(Trade \<Rightarrow> 'k) \<Rightarrow> Market \<Rightarrow> error + 'k History" where
  "History_init sort_by_time m =
     (case Trade_getattr ''sort_by_time'' of
        Inl e \<Rightarrow> Inl e
      | Inr name \<Rightarrow>
          Inr \<lparr>History.market = m, trades = \<lparr>key = sort_by_time, items = []\<rparr>\<rparr>)"

definition History_last :: "'k History \<Rightarrow> (error + Trade) \<times> 'k History" where
  "History_last h = (SortedList_getitem_last (trades h), h)"

definition History_clear :: "'k History \<Rightarrow> (error + unit) \<times> 'k History" where
  "History_clear h = (Inr (), h\<lparr>trades := (trades h)\<lparr>items := []\<rparr>\<rparr>)"

definition History_add ::
  "Trade \<Rightarrow> ('k::linorder) History \<Rightarrow> (error + unit) \<times> 'k History" where
  "History_add tr h = (Inr (), h\<lparr>trades := SortedList_add tr (trades h)\<rparr>)"

definition History_add_many ::
  "Trade list \<Rightarrow> ('k::linorder) History \<Rightarrow> (error + unit) \<times> 'k History" where
  "History_add_many trs h = (Inr (), h\<lparr>trades := SortedList_update trs (trades h)\<rparr>)"

definition History_remove :: "Trade \<Rightarrow> 'k History \<Rightarrow> (error + unit) \<times> 'k History" where
  "History_remove tr h =
     (case SortedList_remove tr (trades h) of
        Inl e \<Rightarrow> (Inl e, h)
      | Inr l \<Rightarrow> (Inr (), h\<lparr>trades := l\<rparr>))"

section \<open>Sequences of calls\<close>

text \<open>
  The calls a client can make on one order book. \<open>Elsewhere\<close> is a token drawn from the
  shared counter on behalf of some other order book of the process.
\<close>

datatype operation =
    Clear
  | Add Offer
  | Add_many "Offer list"
  | Remove OfferToken
  | Elsewhere

fun step :: "operation \<Rightarrow> State \<Rightarrow> State" where
  "step Clear s = snd (Orderbook_clear s)"
| "step (Add ofr) s = snd (Orderbook_add ofr s)"
| "step (Add_many offers) s = snd (Orderbook_add_many offers s)"
| "step (Remove token) s = snd (Orderbook_remove token s)"
| "step Elsewhere s = s\<lparr>offer_token_id := Suc (offer_token_id s)\<rparr>"

fun run :: "operation list \<Rightarrow> State \<Rightarrow> State" where
  "run [] s = s"
| "run (c # cs) s = run cs (step c s)"

text \<open>A freshly constructed book, at whatever value the shared counter has by then.\<close>

definition fresh :: "nat \<Rightarrow> Market \<Rightarrow> State" where
  "fresh n m = \<lparr>offer_token_id = n, book = Orderbook_init m\<rparr>"






text \<open>
  The scenario of the specification: on the market BTC/USD, a bid at 9000, a bid at
  9100, an ask at 9200 and an ask at 9050, each for one unit, admitted in that order.
\<close>

definition BTC_USD :: Market where
  "BTC_USD = \<lparr>base = \<lparr>symbol = ''BTC'', issuer = ''''\<rparr>,
              counter = \<lparr>symbol = ''USD'', issuer = ''''\<rparr>\<rparr>"

definition scenario :: "operation list" where
  "scenario =
     [Add (Offer_init True 1 9000), Add (Offer_init True 1 9100),
      Add (Offer_init False 1 9200), Add (Offer_init False 1 9050)]"

text \<open>A batch for \<open>add_many\<close>: a bid, an ask and a second bid.\<close>

definition three_offers :: "Offer list" where
  "three_offers = [Offer_init True 1 9000, Offer_init False 1 9200, Offer_init True 2 18200]"

text \<open>A history object as its methods see it, keyed by the time of the trade, and a
  trade to try them on.\<close>

definition no_trades :: "int History" where
  "no_trades = \<lparr>History.market = BTC_USD, trades = \<lparr>key = Trade.time, items = []\<rparr>\<rparr>"

definition trade_at :: "int \<Rightarrow> Trade" where
  "trade_at t = \<lparr>Trade.time = t, offer = Offer_init True 1 9000\<rparr>"

text \<open>The same state with another market written on the book.\<close>

definition on_market :: "Market \<Rightarrow> State \<Rightarrow> State" where
  "on_market m s = s\<lparr>book := (book s)\<lparr>Orderbook.market := m\<rparr>\<rparr>"

section \<open>Rounding to the context precision\<close>

lemma digits10_bounds:
  "0 < n \<Longrightarrow> 10 ^ (digits10 n - 1) \<le> n \<and> n < 10 ^ digits10 n"
proof (induction n rule: digits10.induct)
  case (1 n)
  show ?case
  proof (cases "n < 10")
    case True
    have "digits10 (n div 10) = 0" using True 1(2) by (simp add: digits10.simps)
    then have "digits10 n = 1" using 1(2) by (simp add: digits10.simps[of n])
    then show ?thesis using True 1(2) by simp
  next
    case False
    define m where "m = n div 10"
    have m: "0 < m" using False by (simp add: m_def)
    have ih: "10 ^ (digits10 m - 1) \<le> m" "m < 10 ^ digits10 m"
      using 1(1) 1(2) m by (simp_all add: m_def)
    have dm: "0 < digits10 m" using m by (simp add: digits10.simps[of m])
    have dn: "digits10 n = Suc (digits10 m)" using 1(2) by (simp add: digits10.simps[of n] m_def)
    have "10 * m \<le> n" "n < 10 * (m + 1)" by (simp_all add: m_def)
    moreover have "(10::int) ^ digits10 m = 10 * 10 ^ (digits10 m - 1)"
      using dm by (cases "digits10 m") simp_all
    ultimately show ?thesis using ih by (simp add: dn)
  qed
qed

lemma digits10_pos: "0 < n \<Longrightarrow> 0 < digits10 n"
  by (simp add: digits10.simps[of n])

lemma rhe_of_int: "round_half_even (of_int n) = n"
  by (simp add: round_half_even_def)


lemma rhe_ge: "of_int n \<le> x \<Longrightarrow> n \<le> round_half_even x"
proof -
  assume "of_int n \<le> x"
  then have "n \<le> \<lfloor>x\<rfloor>" by (simp add: le_floor_iff)
  then show ?thesis by (auto simp: round_half_even_def Let_def)
qed

lemma rhe_le: "x \<le> of_int n \<Longrightarrow> round_half_even x \<le> n"
proof -
  assume a: "x \<le> of_int n"
  show ?thesis
  proof (cases "x = of_int n")
    case True then show ?thesis by (simp add: rhe_of_int)
  next
    case False
    with a have "x < of_int n" by simp
    then have "\<lfloor>x\<rfloor> < n" by (simp add: floor_less_iff)
    then show ?thesis by (auto simp: round_half_even_def Let_def)
  qed
qed

lemma pow10_pos: "0 < (10::rat) powi e"
  by (simp add: power_int_def)

lemma pow10_add: "(10::rat) powi (a + b) = 10 powi a * 10 powi b"
  by (simp add: power_int_add)


lemma pow10_nat: "0 \<le> e \<Longrightarrow> (10::rat) powi e = 10 ^ nat e"
  by (simp add: power_int_def)

lemma adjusted_bounds:
  assumes "x \<noteq> 0"
  shows "10 powi adjusted x \<le> \<bar>x\<bar>" and "\<bar>x\<bar> < 10 powi (adjusted x + 1)"
proof -
  obtain p q where pq: "quotient_of \<bar>x\<bar> = (p, q)" by (cases "quotient_of \<bar>x\<bar>")
  have q: "0 < q" using pq quotient_of_denom_pos by blast
  have xe: "\<bar>x\<bar> = of_int p / of_int q" using pq quotient_of_div by blast
  have "0 < rat_of_int p / rat_of_int q" using assms xe by simp
  then have p: "0 < p" using q by (simp add: zero_less_divide_iff)
  define fp where "fp = digits10 p"
  define fq where "fq = digits10 q"
  have bp: "10 ^ (fp - 1) \<le> p" "p < 10 ^ fp"
    using digits10_bounds[OF p] by (simp_all add: fp_def)
  have bq: "10 ^ (fq - 1) \<le> q" "q < 10 ^ fq"
    using digits10_bounds[OF q] by (simp_all add: fq_def)
  have fp1: "1 \<le> fp" using digits10_pos[OF p] by (simp add: fp_def)
  have fq1: "1 \<le> fq" using digits10_pos[OF q] by (simp add: fq_def)
  have rp: "(10::rat) ^ (fp - 1) \<le> of_int p" "of_int p < (10::rat) ^ fp"
  proof -
    have "rat_of_int (10 ^ (fp - 1)) \<le> rat_of_int p" using bp(1) of_int_le_iff by blast
    then show "(10::rat) ^ (fp - 1) \<le> of_int p" by simp
    have "rat_of_int p < rat_of_int (10 ^ fp)" using bp(2) of_int_less_iff by blast
    then show "of_int p < (10::rat) ^ fp" by simp
  qed
  have rq: "(10::rat) ^ (fq - 1) \<le> of_int q" "of_int q < (10::rat) ^ fq"
  proof -
    have "rat_of_int (10 ^ (fq - 1)) \<le> rat_of_int q" using bq(1) of_int_le_iff by blast
    then show "(10::rat) ^ (fq - 1) \<le> of_int q" by simp
    have "rat_of_int q < rat_of_int (10 ^ fq)" using bq(2) of_int_less_iff by blast
    then show "of_int q < (10::rat) ^ fq" by simp
  qed
  define d where "d = int fp - int fq"
  have adj: "adjusted x = (if 10 powi d \<le> \<bar>x\<bar> then d else d - 1)"
    by (simp add: adjusted_def pq d_def fp_def fq_def)
  have qpos: "(0::rat) < of_int q" using q by simp
  have up: "\<bar>x\<bar> < 10 powi (d + 1)"
  proof -
    have "of_int p < (10::rat) powi int fp" using rp(2) by simp
    also have "\<dots> = 10 powi (d + 1) * 10 powi (int fq - 1)"
      by (simp add: d_def pow10_add[symmetric])
    also have "\<dots> \<le> 10 powi (d + 1) * of_int q"
    proof -
      have "(10::rat) powi (int fq - 1) = 10 ^ (fq - 1)"
        using fq1 by (simp add: pow10_nat nat_diff_distrib')
      then show ?thesis using rq(1) pow10_pos[of "d + 1"] by simp
    qed
    finally show ?thesis using qpos by (simp add: xe pos_divide_less_eq)
  qed
  have lo: "10 powi (d - 1) \<le> \<bar>x\<bar>"
  proof -
    have "10 powi (d - 1) * of_int q \<le> 10 powi (d - 1) * (10::rat) powi int fq"
      using rq(2) pow10_pos[of "d - 1"] by simp
    also have "\<dots> = 10 powi (d - 1 + int fq)"
      by (simp only: pow10_add)
    also have "\<dots> = 10 powi (int fp - 1)"
      by (simp add: d_def)
    also have "\<dots> = 10 ^ (fp - 1)"
      using fp1 by (simp add: pow10_nat nat_diff_distrib')
    also have "\<dots> \<le> of_int p" using rp(1) .
    finally show ?thesis using qpos by (simp add: xe pos_le_divide_eq)
  qed
  show "10 powi adjusted x \<le> \<bar>x\<bar>" using adj lo by auto
  show "\<bar>x\<bar> < 10 powi (adjusted x + 1)" using adj up by (auto simp: not_le)
qed


lemma adjusted_minus: "adjusted (- x) = adjusted x"
  by (simp add: adjusted_def)


lemma round_prec_minus: "round_prec (- x) = - round_prec x"
  by (simp add: round_prec_def adjusted_minus Let_def sgn_minus)

lemma scaled_bounds:
  assumes "x \<noteq> 0"
  defines "q \<equiv> 10 powi (adjusted x - 7)"
  shows "10 ^ 7 \<le> \<bar>x\<bar> / q" and "\<bar>x\<bar> / q < 10 ^ 8"
proof -
  have q: "0 < q" by (simp add: q_def pow10_pos)
  have e7: "adjusted x = 7 + (adjusted x - 7)" by simp
  have e8: "adjusted x + 1 = 8 + (adjusted x - 7)" by simp
  have "(10::rat) powi adjusted x = 10 powi 7 * 10 powi (adjusted x - 7)"
    by (subst e7) (rule pow10_add)
  then have a: "(10::rat) powi adjusted x = 10 ^ 7 * q" by (simp add: q_def)
  have "(10::rat) powi (adjusted x + 1) = 10 powi 8 * 10 powi (adjusted x - 7)"
    by (subst e8) (rule pow10_add)
  then have b: "(10::rat) powi (adjusted x + 1) = 10 ^ 8 * q" by (simp add: q_def)
  show "10 ^ 7 \<le> \<bar>x\<bar> / q"
    using adjusted_bounds(1)[OF assms(1)] q by (simp add: a pos_le_divide_eq)
  show "\<bar>x\<bar> / q < 10 ^ 8"
    using adjusted_bounds(2)[OF assms(1)] q by (simp add: b pos_divide_less_eq)
qed

lemma round_prec_eq:
  "x \<noteq> 0 \<Longrightarrow> round_prec x =
     sgn x * of_int (round_half_even (\<bar>x\<bar> / 10 powi (adjusted x - 7))) * 10 powi (adjusted x - 7)"
  by (simp add: round_prec_def prec_def Let_def)

lemma coefficient_bounds:
  assumes "x \<noteq> 0"
  shows "10 ^ 7 \<le> round_half_even (\<bar>x\<bar> / 10 powi (adjusted x - 7))"
    and "round_half_even (\<bar>x\<bar> / 10 powi (adjusted x - 7)) \<le> 10 ^ 8"
proof -
  have "rat_of_int (10 ^ 7) \<le> \<bar>x\<bar> / 10 powi (adjusted x - 7)"
    using scaled_bounds(1)[OF assms] by simp
  then show "10 ^ 7 \<le> round_half_even (\<bar>x\<bar> / 10 powi (adjusted x - 7))"
    by (rule rhe_ge)
  have "\<bar>x\<bar> / 10 powi (adjusted x - 7) \<le> rat_of_int (10 ^ 8)"
    using scaled_bounds(2)[OF assms] by simp
  then show "round_half_even (\<bar>x\<bar> / 10 powi (adjusted x - 7)) \<le> 10 ^ 8"
    by (rule rhe_le)
qed

lemma round_prec_pos: "0 < x \<Longrightarrow> 0 < round_prec x"
proof -
  assume x: "0 < x"
  then have x0: "x \<noteq> 0" by simp
  have "(0::int) < 10 ^ 7" by simp
  then have "0 < round_half_even (\<bar>x\<bar> / 10 powi (adjusted x - 7))"
    using coefficient_bounds(1)[OF x0] by linarith
  then show ?thesis
    using x by (simp add: round_prec_eq[OF x0] pow10_pos)
qed

lemma round_prec_neg: "x < 0 \<Longrightarrow> round_prec x < 0"
  using round_prec_pos[of "- x"] by (simp add: round_prec_minus)

lemma round_prec_zero: "round_prec 0 = 0"
  by (simp add: round_prec_def)

lemma round_prec_pos_iff: "0 < round_prec x \<longleftrightarrow> 0 < x"
  using round_prec_pos[of x] round_prec_neg[of x] round_prec_zero
  by (cases "x = 0"; cases "0 < x") (auto simp: not_less)

lemma round_prec_neg_iff: "round_prec x < 0 \<longleftrightarrow> x < 0"
  using round_prec_pos[of x] round_prec_neg[of x] round_prec_zero
  by (cases "x = 0"; cases "0 < x") (auto simp: not_less)




section \<open>Prices and tokens\<close>









section \<open>Prices built from a target price\<close>

text \<open>
  Reading the price back goes through two roundings, of the product and of the quotient,
  and need not return the price that was given, even when that price has eight digits.
\<close>

lemma from_price_example:
  "Offer_price (Offer_from_price True (12345678 / 10 ^ 7) (98765432 / 10 ^ 7)) = Inr (9876543 / 10 ^ 6)"
  by code_simp



section \<open>Sorted dictionaries keep their order\<close>




lemma setitem_keys: "fst ` set (SortedDict_setitem k v d) = insert k (fst ` set d)"
  by (induction k v d rule: SortedDict_setitem.induct) auto



lemma delitem_Inl: "SortedDict_delitem k d = Inl e \<Longrightarrow> e = KeyError \<and> k \<notin> fst ` set d"
  by (induction k d arbitrary: e rule: SortedDict_delitem.induct)
    (auto split: if_splits sum.splits)






lemma update_append:
  "SortedDict_update (xs @ ys) d = SortedDict_update ys (SortedDict_update xs d)"
  by (induction xs arbitrary: d) auto

section \<open>Every reachable order book is well formed\<close>














section \<open>Iteration order of the two sides\<close>








section \<open>The two sides never share a token\<close>







section \<open>Bulk admission against one-by-one admission\<close>



text \<open>The batch admitted after the scenario: the tokens come back in the order of the
  offers, and the new bids settle behind the older bids of the same price.\<close>

lemma three_offers_tokens:
  "fst (Orderbook_add_many three_offers (run scenario (fresh 0 BTC_USD)))
     = Inr [\<lparr>price = - 9000, time = 4\<rparr>, \<lparr>price = 9200, time = 5\<rparr>, \<lparr>price = - 9100, time = 6\<rparr>]"
  by code_simp

lemma three_offers_bids:
  "map fst (bids (book (snd (Orderbook_add_many three_offers (run scenario (fresh 0 BTC_USD))))))
     = [\<lparr>price = - 9100, time = 1\<rparr>, \<lparr>price = - 9100, time = 6\<rparr>,
        \<lparr>price = - 9000, time = 0\<rparr>, \<lparr>price = - 9000, time = 4\<rparr>]"
  by code_simp



section \<open>Removal\<close>


lemma delitem_setitem_fresh:
  "k \<notin> fst ` set d \<Longrightarrow> SortedDict_delitem k (SortedDict_setitem k v d) = Inr d"
  by (induction k v d rule: SortedDict_setitem.induct) auto








section \<open>Failure leaves the object as it was\<close>










section \<open>The trade history\<close>

text \<open>
  The methods of the history, on a history object whose list is keyed by some function:
  \<open>add\<close> keeps the list in ascending key order, and \<open>last\<close> returns a trade of greatest
  key, or raises IndexError when there is none.
\<close>

lemma insert_right_set: "set (insert_right f v xs) = insert v (set xs)"
  by (induction xs) auto

lemma insert_right_sorted:
  "sorted (map f xs) \<Longrightarrow> sorted (map f (insert_right f v xs))"
  by (induction xs) (auto simp: insert_right_set)

lemma History_add_keeps_order:
  assumes "sorted (map (key (trades h)) (items (trades h)))"
  shows "sorted (map (key (trades (snd (History_add tr h))))
                     (items (trades (snd (History_add tr h)))))"
  using insert_right_sorted[OF assms, of tr]
  by (simp add: History_add_def SortedList_add_def)

lemma History_last_greatest:
  assumes "sorted (map (key (trades h)) (items (trades h)))" "items (trades h) \<noteq> []"
  shows "\<exists>tr. fst (History_last h) = Inr tr \<and> tr \<in> set (items (trades h))
           \<and> (\<forall>x \<in> set (items (trades h)). key (trades h) x \<le> key (trades h) tr)"
proof -
  define xs where "xs = items (trades h)"
  have ne: "xs \<noteq> []" using assms(2) by (simp add: xs_def)
  have "fst (History_last h) = Inr (last xs)"
    using ne by (cases xs) (simp_all add: History_last_def SortedList_getitem_last_def xs_def)
  moreover have "last xs \<in> set xs" using ne by simp
  moreover have "\<forall>x \<in> set xs. key (trades h) x \<le> key (trades h) (last xs)"
  proof
    fix x assume "x \<in> set xs"
    then obtain i where i: "i < length xs" "xs ! i = x" by (auto simp: in_set_conv_nth)
    have "map (key (trades h)) xs ! i \<le> map (key (trades h)) xs ! (length xs - 1)"
      using assms(1) i(1) by (intro sorted_nth_mono) (simp_all add: xs_def)
    then show "key (trades h) x \<le> key (trades h) (last xs)"
      using i ne by (simp add: last_conv_nth)
  qed
  ultimately show ?thesis unfolding xs_def by blast
qed

lemma History_last_empty:
  "items (trades h) = [] \<Longrightarrow> History_last h = (Inl IndexError, h)"
  by (simp add: History_last_def SortedList_getitem_last_def)

lemma methods_on_a_history_keyed_by_time:
  "map Trade.time (items (trades (snd (History_add (trade_at 570)
      (snd (History_add (trade_at 540) (snd (History_add (trade_at 600) no_trades))))))))
   = [540, 570, 600]"
  by (simp add: History_add_def SortedList_add_def no_trades_def trade_at_def)

text \<open>
  The constructor, however, never returns such an object: \<open>Trade\<close> has no attribute
  \<open>sort_by_time\<close>, so the expression that should build the list raises.
\<close>

lemma History_init_raises: "History_init sort_by_time m = Inl AttributeError"
  by (simp add: History_init_def Trade_getattr_def Trade_attributes_def)

text \<open>
  Claim C1. The specification asks that a history iterates its trades in ascending order
  of time, whatever the order of the \<open>add\<close> calls: trades added at 10:00, 09:00 and
  09:30 are to be iterated as 09:00, 09:30, 10:00. Run on the code, the scenario ends in
  the constructor: it raises AttributeError, there is no history to add to, and nothing
  is iterated.
\<close>

theorem history_scenario_raises:
  "(case History_init sort_by_time BTC_USD of
      Inl e \<Rightarrow> Inl e
    | Inr h \<Rightarrow>
        Inr (items (trades (snd (History_add (trade_at 570)
               (snd (History_add (trade_at 540)
                  (snd (History_add (trade_at 600) h)))))))))
   = (Inl AttributeError :: error + Trade list)"
  by (simp add: History_init_def Trade_getattr_def Trade_attributes_def)

text \<open>
  Claim C2. The specification asks that \<open>last\<close> returns the trade of greatest time and
  raises only on a history without trades. Run on the code, constructing a history,
  adding one trade and asking for \<open>last\<close> raises AttributeError in the constructor:
  the trade is never returned.
\<close>

theorem history_last_raises:
  "(case History_init sort_by_time BTC_USD of
      Inl e \<Rightarrow> Inl e
    | Inr h \<Rightarrow> fst (History_last (snd (History_add (trade_at 600) h))))
   = Inl AttributeError"
  by (simp add: History_init_def Trade_getattr_def Trade_attributes_def)

section \<open>The market of an object\<close>

lemma add_market:
  "Orderbook.market (book (snd (Orderbook_add x s))) = Orderbook.market (book s)"
  by (cases "OfferToken_new (offer_token_id s) x")
    (auto simp: Orderbook_add_def split: prod.splits)

lemma add_many_market:
  "Orderbook.market (book (snd (Orderbook_add_many xs s))) = Orderbook.market (book s)"
  by (cases "add_many_loop xs (offer_token_id s) [] [] []")
    (auto simp: Orderbook_add_many_def split: sum.splits prod.splits)

lemma remove_market:
  "Orderbook.market (book (snd (Orderbook_remove t s))) = Orderbook.market (book s)"
  by (auto simp: Orderbook_remove_def split: sum.splits)

lemma history_remove_market:
  "History.market (snd (History_remove tr h)) = History.market h"
  by (auto simp: History_remove_def split: sum.splits)

lemma add_any_market:
  "Orderbook_add x (on_market m s)
     = (fst (Orderbook_add x s), on_market m (snd (Orderbook_add x s)))"
  by (cases "OfferToken_new (offer_token_id s) x")
    (auto simp: Orderbook_add_def on_market_def split: prod.splits)

lemma add_many_any_market:
  "Orderbook_add_many xs (on_market m s)
     = (fst (Orderbook_add_many xs s), on_market m (snd (Orderbook_add_many xs s)))"
  by (cases "add_many_loop xs (offer_token_id s) [] [] []")
    (auto simp: Orderbook_add_many_def on_market_def split: sum.splits prod.splits)

text \<open>
  Claim C10. Every method of the order book and of the history leaves the \<open>market\<close> of
  its object as it was. Offers and trades carry no market of their own, and \<open>add\<close> and
  \<open>add_many\<close> never read the market of their object: called on the same object with
  any other market written on it, they return the same outcome and leave the same
  state, up to that market. So what is admitted does not depend on any market.
\<close>

theorem market_is_untouched:
  fixes h :: "('k::linorder) History"
  shows "Orderbook.market (book (snd (Orderbook_clear s))) = Orderbook.market (book s)
       \<and> Orderbook.market (book (snd (Orderbook_add x s))) = Orderbook.market (book s)
       \<and> Orderbook.market (book (snd (Orderbook_add_many xs s))) = Orderbook.market (book s)
       \<and> Orderbook.market (book (snd (Orderbook_remove t s))) = Orderbook.market (book s)
       \<and> History.market (snd (History_clear h)) = History.market h
       \<and> History.market (snd (History_add tr h)) = History.market h
       \<and> History.market (snd (History_add_many trs h)) = History.market h
       \<and> History.market (snd (History_remove tr h)) = History.market h
       \<and> History.market (snd (History_last h)) = History.market h
       \<and> Orderbook_add x (on_market m s)
            = (fst (Orderbook_add x s), on_market m (snd (Orderbook_add x s)))
       \<and> Orderbook_add_many xs (on_market m s)
            = (fst (Orderbook_add_many xs s), on_market m (snd (Orderbook_add_many xs s)))
       \<and> History_add tr (h\<lparr>History.market := m\<rparr>)
            = (fst (History_add tr h), (snd (History_add tr h))\<lparr>History.market := m\<rparr>)
       \<and> History_add_many trs (h\<lparr>History.market := m\<rparr>)
            = (fst (History_add_many trs h), (snd (History_add_many trs h))\<lparr>History.market := m\<rparr>)"
  using add_market[of x s] add_many_market[of xs s] remove_market[of t s]
    history_remove_market[of tr h] add_any_market[of x m s] add_many_any_market[of xs m s]
  by (simp add: Orderbook_clear_def History_clear_def History_add_def History_add_many_def
      History_last_def)

end
